theory Spec2Isabelle
  imports Complex_Main
begin

section \<open>JavaScript values used by the dashboard\<close>

text \<open>
  The numbers the controller stores in its filter fields are the results of
  \<^verbatim>\<open>parseInt\<close> (an integer or \<^verbatim>\<open>NaN\<close>) or the integers taken from
  \<^verbatim>\<open>new Date()\<close>. A field that can also hold \<^verbatim>\<open>null\<close> is a
  \<open>jsnum option\<close>, with \<open>None\<close> for \<^verbatim>\<open>null\<close>.
\<close>

datatype jsnum = Num int | NaN

text \<open>Values exchanged with the server and held in the data fields of the state.\<close>

datatype json =
    JUndefined
  | JNull
  | JBool bool
  | JNumber jsnum
  | JString string
  | JArray "json list"
  | JObject "(string \<times> json) list"

text \<open>
  What a rejected promise or a failing expression throws: the remote call's own error
  (with its message), or the \<^verbatim>\<open>TypeError\<close> of the language.
\<close>

datatype exn = TypeError | RpcError string

subsection \<open>Strings\<close>

text \<open>
  The strings of the model are strings of ASCII characters: \<open>isAscii\<close> says that no
  character of a string has its eighth bit set. On these \<^verbatim>\<open>String.prototype.toUpperCase\<close>
  maps the letters \<^verbatim>\<open>a\<close> to \<^verbatim>\<open>z\<close> to \<^verbatim>\<open>A\<close> to \<^verbatim>\<open>Z\<close> and leaves every other
  character as it is. The case mapping of the characters beyond ASCII (which can turn one
  character into two, as for the sharp s) is not modelled: \<open>toUpperChar\<close> leaves them
  as they are, and what is said of upper case is said of ASCII strings.
\<close>

definition isAscii :: "string \<Rightarrow> bool" where
  "isAscii s = list_all (\<lambda>c. \<not> digit7 c) s"

definition toUpperChar :: "char \<Rightarrow> char" where
  "toUpperChar c =
     (case map_of (zip ''abcdefghijklmnopqrstuvwxyz'' ''ABCDEFGHIJKLMNOPQRSTUVWXYZ'') c of
        None \<Rightarrow> c
      | Some u \<Rightarrow> u)"

definition toUpperCase :: "string \<Rightarrow> string" where
  "toUpperCase s = map toUpperChar s"

text \<open>
  \<^verbatim>\<open>s.split(c)\<close> for a one-character separator: the pieces between the separators,
  empty pieces included, so the result always has at least one piece.
\<close>

fun split :: "char \<Rightarrow> string \<Rightarrow> string list" where
  "split c [] = [[]]"
| "split c (x # xs) =
     (if x = c then [] # split c xs
      else (case split c xs of [] \<Rightarrow> [[x]] | p # ps \<Rightarrow> (x # p) # ps))"

text \<open>\<^verbatim>\<open>s.substring(0, n)\<close>.\<close>

definition substring0 :: "nat \<Rightarrow> string \<Rightarrow> string" where
  "substring0 n s = take n s"

text \<open>
  \<^verbatim>\<open>s[0]\<close>: the first character as a string, and \<open>None\<close> for the
  \<^verbatim>\<open>undefined\<close> that reading past the end of the string gives.
\<close>

fun charAt0 :: "string \<Rightarrow> string option" where
  "charAt0 [] = None"
| "charAt0 (c # cs) = Some [c]"

text \<open>
  The operator \<^verbatim>\<open>+\<close> on two operands that are each a string or \<^verbatim>\<open>undefined\<close>: with
  a string operand the other is converted to a string and the two are concatenated;
  \<^verbatim>\<open>undefined + undefined\<close> is the number \<^verbatim>\<open>NaN\<close>.
\<close>

fun jsAdd :: "string option \<Rightarrow> string option \<Rightarrow> json" where
  "jsAdd (Some a) (Some b) = JString (a @ b)"
| "jsAdd None (Some b) = JString (''undefined'' @ b)"
| "jsAdd (Some a) None = JString (a @ ''undefined'')"
| "jsAdd None None = JNumber NaN"

text \<open>
  The call \<^verbatim>\<open>v.toUpperCase()\<close>: defined on strings; on a number the property is
  \<^verbatim>\<open>undefined\<close> and calling it throws a \<^verbatim>\<open>TypeError\<close>, as does reading it from
  \<^verbatim>\<open>undefined\<close> or \<^verbatim>\<open>null\<close>.
\<close>

fun callToUpperCase :: "json \<Rightarrow> exn + string" where
  "callToUpperCase (JString s) = Inr (toUpperCase s)"
| "callToUpperCase _ = Inl TypeError"

section \<open>Presentation helpers of the dashboard controller\<close>

text \<open>
  \<^verbatim>\<open>getInitials(name)\<close>, the same in both dashboards:
  \<^verbatim>\<open>
    if (!name) return '?';
    const parts = name.split(' ');
    if (parts.length >= 2) {
        return (parts[0][0] + parts[1][0]).toUpperCase();
    }
    return name.substring(0, 2).toUpperCase();
  \<close>
\<close>

definition getInitials :: "string \<Rightarrow> exn + string" where
  "getInitials name =
     (if name = [] then Inr ''?''
      else let parts = split CHR '' '' name in
        if length parts \<ge> 2
        then callToUpperCase (jsAdd (charAt0 (parts ! 0)) (charAt0 (parts ! 1)))
        else Inr (toUpperCase (substring0 2 name)))"

text \<open>
  A number of the language as \<^verbatim>\<open>getProgressColor\<close> can receive it: a finite number,
  an infinity, or \<^verbatim>\<open>NaN\<close> (which is also what \<^verbatim>\<open>undefined\<close> is compared as). The
  comparisons \<^verbatim>\<open>x >= c\<close> and \<^verbatim>\<open>x < c\<close> with a finite constant \<open>c\<close> are both false
  when \<open>x\<close> is \<^verbatim>\<open>NaN\<close>.
\<close>

datatype number = Finite real | PosInfinity | NegInfinity | NotANumber

fun jsGreaterEq :: "number \<Rightarrow> real \<Rightarrow> bool" where
  "jsGreaterEq (Finite x) c = (x \<ge> c)"
| "jsGreaterEq PosInfinity c = True"
| "jsGreaterEq NegInfinity c = False"
| "jsGreaterEq NotANumber c = False"

fun jsLess :: "number \<Rightarrow> real \<Rightarrow> bool" where
  "jsLess (Finite x) c = (x < c)"
| "jsLess PosInfinity c = False"
| "jsLess NegInfinity c = True"
| "jsLess NotANumber c = False"

text \<open>
  \<^verbatim>\<open>getProgressColor(rate)\<close> of the dashboard with the job filter:
  \<^verbatim>\<open>
    if (rate >= 90) return '#10b981';
    if (rate >= 70) return '#f59e0b';
    return '#ef4444';
  \<close>
\<close>

definition getProgressColor :: "number \<Rightarrow> string" where
  "getProgressColor rate =
     (if jsGreaterEq rate 90 then ''#10b981''
      else if jsGreaterEq rate 70 then ''#f59e0b''
      else ''#ef4444'')"

section \<open>The form controller patch\<close>

text \<open>
  The getter the patch installs on \<^verbatim>\<open>FormController.prototype\<close>. The controller's
  \<^verbatim>\<open>props.resModel\<close> is \<open>resModel\<close>; \<open>super_actionMenuItems\<close> is what the
  unpatched getter returns for this controller. A menu-items object is the list of its
  entries, \<^verbatim>\<open>{}\<close> the empty list.
  \<^verbatim>\<open>
    get actionMenuItems() {
        if (this.props.resModel === 'hr.daily.report') {
            return {};
        }
        return super.actionMenuItems;
    }
  \<close>
\<close>

definition actionMenuItems :: "(string \<times> 'a) list \<Rightarrow> string \<Rightarrow> (string \<times> 'a) list" where
  "actionMenuItems super_actionMenuItems resModel =
     (if resModel = ''hr.daily.report'' then [] else super_actionMenuItems)"

section \<open>More of the language: truthiness, conversions, property reads\<close>

text \<open>
  The condition of an \<^verbatim>\<open>if\<close>, of \<^verbatim>\<open>?:\<close> and of \<^verbatim>\<open>||\<close>: \<^verbatim>\<open>undefined\<close>,
  \<^verbatim>\<open>null\<close>, \<^verbatim>\<open>false\<close>, \<^verbatim>\<open>0\<close>, \<^verbatim>\<open>NaN\<close> and the empty string are falsy,
  everything else (every array and object too) is truthy.
\<close>

fun truthy :: "json \<Rightarrow> bool" where
  "truthy JUndefined = False"
| "truthy JNull = False"
| "truthy (JBool b) = b"
| "truthy (JNumber (Num n)) = (n \<noteq> 0)"
| "truthy (JNumber NaN) = False"
| "truthy (JString s) = (s \<noteq> [])"
| "truthy (JArray xs) = True"
| "truthy (JObject kvs) = True"

text \<open>A filter field as a value: \<^verbatim>\<open>null\<close> or the number.\<close>

fun toJson :: "jsnum option \<Rightarrow> json" where
  "toJson None = JNull"
| "toJson (Some n) = JNumber n"

text \<open>
  The decimal digits of a number, as a template literal writes an integer below
  \<^verbatim>\<open>1e21\<close> in absolute value.
\<close>

fun showNat :: "nat \<Rightarrow> string" where
  "showNat n =
     (if n < 10 then [''0123456789'' ! n]
      else showNat (n div 10) @ [''0123456789'' ! (n mod 10)])"

definition showInt :: "int \<Rightarrow> string" where
  "showInt i = (if i < 0 then CHR ''-'' # showNat (nat (- i)) else showNat (nat i))"

fun toString :: "jsnum \<Rightarrow> string" where
  "toString (Num i) = showInt i"
| "toString NaN = ''NaN''"

text \<open>\<^verbatim>\<open>xs.join(sep)\<close> on an array of strings.\<close>

fun join :: "string \<Rightarrow> string list \<Rightarrow> string" where
  "join sep [] = []"
| "join sep [x] = x"
| "join sep (x # y # ys) = x @ sep @ join sep (y # ys)"

text \<open>
  \<^verbatim>\<open>parseInt(s)\<close> with no radix: leading white space is skipped, a sign is read, the
  prefix \<^verbatim>\<open>0x\<close> or \<^verbatim>\<open>0X\<close> selects base 16 (base 10 otherwise), and the longest run of
  digits of that base is the value; with no digit the result is \<^verbatim>\<open>NaN\<close>. The value is
  kept as an integer (the rounding of integers beyond \<^verbatim>\<open>2^53\<close> is not modelled), and
  the white space skipped is that of ASCII.
\<close>

definition isWhiteSpace :: "char \<Rightarrow> bool" where
  "isWhiteSpace c = (c \<in> set [CHR 0x09, CHR 0x0A, CHR 0x0B, CHR 0x0C, CHR 0x0D, CHR '' ''])"

definition digitValue :: "char \<Rightarrow> nat" where
  "digitValue c =
     (case map_of (zip ''0123456789abcdef'' [0 ..< 16] @ zip ''ABCDEF'' [10 ..< 16]) c of
        None \<Rightarrow> 16
      | Some d \<Rightarrow> d)"

definition parseInt :: "string \<Rightarrow> jsnum" where
  "parseInt input =
     (let s = dropWhile isWhiteSpace input;
          sign = (if take 1 s = ''-'' then - 1 else (1 :: int));
          s = (if take 1 s = ''-'' \<or> take 1 s = ''+'' then drop 1 s else s);
          hex = (take 2 s = ''0x'' \<or> take 2 s = ''0X'');
          radix = (if hex then 16 else (10 :: nat));
          s = (if hex then drop 2 s else s);
          z = takeWhile (\<lambda>c. digitValue c < radix) s
      in if z = [] then NaN
         else Num (sign * int (foldl (\<lambda>a c. a * radix + digitValue c) 0 z)))"

text \<open>
  Reading a property \<^verbatim>\<open>v.key\<close> of a value that came from the server: a
  \<^verbatim>\<open>TypeError\<close> on \<^verbatim>\<open>undefined\<close> and \<^verbatim>\<open>null\<close>, the entry of an object (its keys
  are distinct) or \<^verbatim>\<open>undefined\<close> when it has none, and \<^verbatim>\<open>undefined\<close> on every
  other value (none of the keys read here is a built-in property).
\<close>

definition isNullish :: "json \<Rightarrow> bool" where
  "isNullish v = (v = JUndefined \<or> v = JNull)"

fun propValue :: "json \<Rightarrow> string \<Rightarrow> json" where
  "propValue (JObject kvs) key = (case map_of kvs key of None \<Rightarrow> JUndefined | Some v \<Rightarrow> v)"
| "propValue v key = JUndefined"

definition getProp :: "json \<Rightarrow> string \<Rightarrow> exn + json" where
  "getProp v key = (if isNullish v then Inl TypeError else Inr (propValue v key))"

section \<open>Statements that may throw\<close>

text \<open>
  A block of statements over a mutable state \<open>'s\<close>: it ends normally with a value or
  throws, and the assignments made before a throw stay made.
\<close>

type_synonym ('s, 'a) js = "'s \<Rightarrow> (exn + 'a) \<times> 's"

definition expr :: "exn + 'a \<Rightarrow> ('s, 'a) js" where
  "expr r = (\<lambda>s. (r, s))"

definition assign :: "('s \<Rightarrow> 's) \<Rightarrow> ('s, unit) js" where
  "assign upd = (\<lambda>s. (Inr (), upd s))"

definition andThen :: "('s, 'a) js \<Rightarrow> ('a \<Rightarrow> ('s, 'b) js) \<Rightarrow> ('s, 'b) js" where
  "andThen m f = (\<lambda>s. case m s of (Inl e, s') \<Rightarrow> (Inl e, s') | (Inr x, s') \<Rightarrow> f x s')"

definition tryCatch :: "('s, 'a) js \<Rightarrow> (exn \<Rightarrow> ('s, 'a) js) \<Rightarrow> ('s, 'a) js" where
  "tryCatch m handler = (\<lambda>s. case m s of (Inl e, s') \<Rightarrow> handler e s' | (Inr x, s') \<Rightarrow> (Inr x, s'))"

text \<open>\<^verbatim>\<open>this.state.field = e\<close>, where evaluating \<open>e\<close> may throw.\<close>

definition assignFrom :: "exn + 'a \<Rightarrow> ('a \<Rightarrow> 's \<Rightarrow> 's) \<Rightarrow> ('s, unit) js" where
  "assignFrom e upd = andThen (expr e) (\<lambda>v. assign (upd v))"

definition seq :: "('s, unit) js \<Rightarrow> ('s, 'b) js \<Rightarrow> ('s, 'b) js" where
  "seq m n = andThen m (\<lambda>_. n)"

section \<open>The state of the dashboard controller\<close>

text \<open>
  What \<^verbatim>\<open>new Date()\<close> gives at the moment it is read: the time of day as
  \<^verbatim>\<open>toLocaleTimeString()\<close> prints it, \<^verbatim>\<open>getMonth()\<close> and \<^verbatim>\<open>getFullYear()\<close>.
\<close>

record clock =
  toLocaleTimeString :: string
  getMonth :: int
  getFullYear :: int

text \<open>
  The fields the state objects of both dashboards have. The dashboard of
  \<^verbatim>\<open>attendance_dashboard.js\<close> (variant B, with the leave list) and the dashboard with the
  job filter (variant A) each add their own.
\<close>

record dashboardState =
  loading :: bool
  refreshing :: bool
  selectedDepartment :: "jsnum option"
  departments :: json
  todayStats :: json
  lastUpdate :: string
  activeTab :: string
  monthlySummary :: json
  selectedMonth :: "jsnum option"
  selectedYear :: "jsnum option"

record stateB = dashboardState +
  absentEmployees :: json
  onLeaveEmployees :: json
  showLeaveList :: bool

record stateA = dashboardState +
  selectedJob :: "jsnum option"
  jobs :: json
  recentCheckins :: json
  employeeList :: json
  employeeFilter :: string

text \<open>The state object \<^verbatim>\<open>setup()\<close> of variant B creates.\<close>

definition setup_B :: "clock \<Rightarrow> stateB" where
  "setup_B now =
     \<lparr> loading = True,
       refreshing = False,
       selectedDepartment = None,
       departments = JArray [],
       todayStats = JObject [],
       lastUpdate = toLocaleTimeString now,
       activeTab = ''overview'',
       monthlySummary = JObject
         [(''employees'', JArray []), (''days_in_month'', JNumber (Num 31)),
          (''month'', JNumber (Num (getMonth now + 1))),
          (''year'', JNumber (Num (getFullYear now))), (''month_name'', JString [])],
       selectedMonth = Some (Num (getMonth now + 1)),
       selectedYear = Some (Num (getFullYear now)),
       absentEmployees = JArray [],
       onLeaveEmployees = JArray [],
       showLeaveList = False \<rparr>"

section \<open>The controller and its remote calls\<close>

text \<open>
  A remote call \<^verbatim>\<open>this.orm.call(model, name, args)\<close>, and the controller with everything
  its handlers act on: the state object, where the component is in its life, whether the
  interval timer of \<^verbatim>\<open>onMounted\<close> is registered with the window, the remote calls issued
  so far, the calls still awaited (each with the place in the code that awaits it), how
  many awaited calls have been settled, the exceptions that left a handler, and the
  targets given to \<^verbatim>\<open>window.open\<close>.
\<close>

type_synonym rpc = "string \<times> string \<times> json list"

datatype phase = Starting | Mounted | Destroyed

record ('s, 'k) controller =
  state :: 's
  phase :: phase
  refreshInterval :: bool
  calls :: "rpc list"
  pending :: "'k list"
  settled :: nat
  rejected :: "exn list"
  opened :: "(string \<times> string) list"

text \<open>
  \<^verbatim>\<open>await this.orm.call(...)\<close>: the call is issued and the running handler is suspended
  at \<open>k\<close> until the call is settled.
\<close>

definition ormCall :: "rpc \<Rightarrow> 'k \<Rightarrow> ('s, 'k) controller \<Rightarrow> ('s, 'k) controller" where
  "ormCall c k w = w\<lparr>calls := calls w @ [c], pending := pending w @ [k]\<rparr>"

text \<open>
  The rest of an \<^verbatim>\<open>async\<close> function after an \<^verbatim>\<open>await\<close>: \<open>body\<close> runs on the state; if
  it throws, the function's promise is rejected and nothing after it runs, otherwise
  \<open>cont\<close> runs.
\<close>

definition awaited ::
  "('s, 'a) js \<Rightarrow> (('s, 'k) controller \<Rightarrow> ('s, 'k) controller) \<Rightarrow>
   ('s, 'k) controller \<Rightarrow> ('s, 'k) controller" where
  "awaited body cont w =
     (case body (state w) of
        (Inl e, s) \<Rightarrow> w\<lparr>state := s, rejected := rejected w @ [e]\<rparr>
      | (Inr x, s) \<Rightarrow> cont (w\<lparr>state := s\<rparr>))"

text \<open>
  \<^verbatim>\<open>loadMonthlySummary\<close> from its \<^verbatim>\<open>await\<close> on, the same in both variants: \<open>r\<close> is how
  the call was settled. The handler of the \<^verbatim>\<open>catch\<close> only writes to the console.
  \<^verbatim>\<open>
    try {
        const data = await this.orm.call(...);
        this.state.monthlySummary = data;
    } catch (error) {
        console.error("...", error);
    }
  \<close>
\<close>

definition loadMonthlySummary_then :: "exn + json \<Rightarrow> ('a dashboardState_scheme, unit) js" where
  "loadMonthlySummary_then r =
     tryCatch
       (assignFrom r (\<lambda>data s. s\<lparr>monthlySummary := data\<rparr>))
       (\<lambda>error. expr (Inr ()))"

section \<open>Variant B: the dashboard with the leave list\<close>

text \<open>
  The places where a handler of variant B waits for a remote call: the
  \<^verbatim>\<open>loadDashboardData\<close> of \<^verbatim>\<open>onWillStart\<close>, the \<^verbatim>\<open>loadDashboardData\<close> and the
  \<^verbatim>\<open>loadMonthlySummary\<close> inside \<^verbatim>\<open>refreshData\<close>, and a \<^verbatim>\<open>loadMonthlySummary\<close>
  called by \<^verbatim>\<open>setActiveTab\<close>, \<^verbatim>\<open>onMonthChange\<close> or \<^verbatim>\<open>onYearChange\<close>.
\<close>

datatype taskB = InitialLoad | RefreshDashboard | RefreshMonthly | MonthlySummary

type_synonym controllerB = "(stateB, taskB) controller"

text \<open>
  \<^verbatim>\<open>loadDashboardData\<close> up to its \<^verbatim>\<open>await\<close>, and from it on:
  \<^verbatim>\<open>
    try {
        const data = await this.orm.call("attendance.dashboard",
            "get_all_dashboard_data", [this.state.selectedDepartment]);
        this.state.todayStats = data.today_stats;
        this.state.absentEmployees = data.absent_employees;
        this.state.onLeaveEmployees = data.on_leave_employees || [];
        this.state.departments = data.departments;
        this.state.lastUpdate = new Date().toLocaleTimeString();
        this.state.loading = false;
    } catch (error) {
        console.error("...", error);
        this.state.loading = false;
    }
  \<close>
\<close>

definition loadDashboardData_B :: "taskB \<Rightarrow> controllerB \<Rightarrow> controllerB" where
  "loadDashboardData_B k w =
     ormCall (''attendance.dashboard'', ''get_all_dashboard_data'',
              [toJson (selectedDepartment (state w))]) k w"

definition loadDashboardData_B_then :: "clock \<Rightarrow> exn + json \<Rightarrow> (stateB, unit) js" where
  "loadDashboardData_B_then now r =
     tryCatch
       (andThen (expr r) (\<lambda>data.
        seq (assignFrom (getProp data ''today_stats'') (\<lambda>v s. s\<lparr>todayStats := v\<rparr>))
       (seq (assignFrom (getProp data ''absent_employees'') (\<lambda>v s. s\<lparr>absentEmployees := v\<rparr>))
       (seq (assignFrom (getProp data ''on_leave_employees'')
               (\<lambda>v s. s\<lparr>onLeaveEmployees := (if truthy v then v else JArray [])\<rparr>))
       (seq (assignFrom (getProp data ''departments'') (\<lambda>v s. s\<lparr>departments := v\<rparr>))
       (seq (assign (\<lambda>s. s\<lparr>lastUpdate := toLocaleTimeString now\<rparr>))
            (assign (\<lambda>s. s\<lparr>loading := False\<rparr>))))))))
       (\<lambda>error. assign (\<lambda>s. s\<lparr>loading := False\<rparr>))"

text \<open>\<^verbatim>\<open>loadMonthlySummary\<close> up to its \<^verbatim>\<open>await\<close>.\<close>

definition loadMonthlySummary_B :: "taskB \<Rightarrow> controllerB \<Rightarrow> controllerB" where
  "loadMonthlySummary_B k w =
     ormCall (''attendance.dashboard'', ''get_monthly_work_summary'',
              [toJson (selectedDepartment (state w)), toJson (selectedMonth (state w)),
               toJson (selectedYear (state w))]) k w"

text \<open>
  \<^verbatim>\<open>refreshData\<close> up to its first \<^verbatim>\<open>await\<close>; the rest of it is in \<open>resume_B\<close>.
  \<^verbatim>\<open>
    this.state.refreshing = true;
    await this.loadDashboardData();
    if (this.state.activeTab === 'monthly') {
        await this.loadMonthlySummary();
    }
    this.state.refreshing = false;
  \<close>
\<close>

definition refreshData_B :: "controllerB \<Rightarrow> controllerB" where
  "refreshData_B w =
     loadDashboardData_B RefreshDashboard (w\<lparr>state := (state w)\<lparr>refreshing := True\<rparr>\<rparr>)"

text \<open>
  What runs when the call awaited at \<open>k\<close> is settled with \<open>r\<close> (\<open>Inl\<close> when the call
  failed), up to the next \<^verbatim>\<open>await\<close> or the end of the handler.
\<close>

fun resume_B :: "taskB \<Rightarrow> clock \<Rightarrow> exn + json \<Rightarrow> controllerB \<Rightarrow> controllerB" where
  "resume_B InitialLoad now r w = awaited (loadDashboardData_B_then now r) (\<lambda>w. w) w"
| "resume_B RefreshDashboard now r w =
     awaited (loadDashboardData_B_then now r)
       (\<lambda>w. if activeTab (state w) = ''monthly''
            then loadMonthlySummary_B RefreshMonthly w
            else w\<lparr>state := (state w)\<lparr>refreshing := False\<rparr>\<rparr>) w"
| "resume_B RefreshMonthly now r w =
     awaited (loadMonthlySummary_then r)
       (\<lambda>w. w\<lparr>state := (state w)\<lparr>refreshing := False\<rparr>\<rparr>) w"
| "resume_B MonthlySummary now r w = awaited (loadMonthlySummary_then r) (\<lambda>w. w) w"

text \<open>
  The handlers of the template, each up to its first \<^verbatim>\<open>await\<close>. \<open>v\<close> is
  \<^verbatim>\<open>ev.target.value\<close>.
\<close>

definition onDepartmentChange_B :: "string \<Rightarrow> controllerB \<Rightarrow> controllerB" where
  "onDepartmentChange_B v w =
     refreshData_B
       (w\<lparr>state := (state w)\<lparr>selectedDepartment :=
            (if v \<noteq> [] then Some (parseInt v) else None)\<rparr>\<rparr>)"

definition clearFilters_B :: "controllerB \<Rightarrow> controllerB" where
  "clearFilters_B w = refreshData_B (w\<lparr>state := (state w)\<lparr>selectedDepartment := None\<rparr>\<rparr>)"

definition setActiveTab_B :: "string \<Rightarrow> controllerB \<Rightarrow> controllerB" where
  "setActiveTab_B tab w =
     (let w1 = w\<lparr>state := (state w)\<lparr>activeTab := tab, showLeaveList := False\<rparr>\<rparr>
      in if tab = ''monthly'' then loadMonthlySummary_B MonthlySummary w1 else w1)"

definition toggleLeaveList_B :: "controllerB \<Rightarrow> controllerB" where
  "toggleLeaveList_B w = w\<lparr>state := (state w)\<lparr>showLeaveList := \<not> showLeaveList (state w)\<rparr>\<rparr>"

definition onMonthChange_B :: "string \<Rightarrow> controllerB \<Rightarrow> controllerB" where
  "onMonthChange_B v w =
     loadMonthlySummary_B MonthlySummary
       (w\<lparr>state := (state w)\<lparr>selectedMonth := Some (parseInt v)\<rparr>\<rparr>)"

definition onYearChange_B :: "string \<Rightarrow> controllerB \<Rightarrow> controllerB" where
  "onYearChange_B v w =
     loadMonthlySummary_B MonthlySummary
       (w\<lparr>state := (state w)\<lparr>selectedYear := Some (parseInt v)\<rparr>\<rparr>)"

text \<open>
  \<^verbatim>\<open>exportToExcel\<close>: the array \<^verbatim>\<open>params\<close>, the URL, and the call of
  \<^verbatim>\<open>window.open(url, '_blank')\<close>.
  \<^verbatim>\<open>
    let url = '/attendance_dashboard/export_monthly_excel?';
    const params = [];
    if (this.state.selectedDepartment) {
        params.push(`department_id=${this.state.selectedDepartment}`);
    }
    if (this.state.selectedMonth) {
        params.push(`month=${this.state.selectedMonth}`);
    }
    if (this.state.selectedYear) {
        params.push(`year=${this.state.selectedYear}`);
    }
    url += params.join('&');
    window.open(url, '_blank');
  \<close>
\<close>

definition pushParam :: "string \<Rightarrow> jsnum option \<Rightarrow> string list \<Rightarrow> string list" where
  "pushParam key field params =
     (case field of
        Some n \<Rightarrow> if truthy (JNumber n) then params @ [key @ ''='' @ toString n] else params
      | None \<Rightarrow> params)"

definition exportParams_B :: "stateB \<Rightarrow> string list" where
  "exportParams_B s =
     pushParam ''year'' (selectedYear s)
       (pushParam ''month'' (selectedMonth s)
         (pushParam ''department_id'' (selectedDepartment s) []))"

definition exportUrl_B :: "stateB \<Rightarrow> string" where
  "exportUrl_B s = ''/attendance_dashboard/export_monthly_excel?'' @ join ''&'' (exportParams_B s)"

definition exportToExcel_B :: "controllerB \<Rightarrow> controllerB" where
  "exportToExcel_B w = w\<lparr>opened := opened w @ [(exportUrl_B (state w), ''_blank'')]\<rparr>"

subsection \<open>The life of the component\<close>

text \<open>
  The controller once \<^verbatim>\<open>setup()\<close> has run and the hook of \<^verbatim>\<open>onWillStart\<close> has been
  started: the state object is new and the first \<^verbatim>\<open>loadDashboardData\<close> is awaited.
\<close>

definition start_B :: "clock \<Rightarrow> controllerB" where
  "start_B now =
     loadDashboardData_B InitialLoad
       \<lparr> state = setup_B now, phase = Starting, refreshInterval = False, calls = [],
         pending = [], settled = 0, rejected = [], opened = [] \<rparr>"

text \<open>
  What can happen to the controller. An awaited call is settled (the \<open>i\<close>-th of the
  pending ones, in any order, at any time, also after the component is gone). The
  framework mounts the component once the hook of \<^verbatim>\<open>onWillStart\<close> has finished, and
  \<^verbatim>\<open>onMounted\<close> registers the interval timer; from then on the user can use the
  template. The timer fires whenever it is registered. The framework destroys the
  component: \<^verbatim>\<open>setup()\<close> registers no hook for that, so nothing of the controller runs.
\<close>

datatype event =
    Settle nat "exn + json" clock
  | Mount
  | Tick
  | Destroy
  | DepartmentChange string
  | ClearFilters
  | SetActiveTab string
  | ToggleLeaveList
  | MonthChange string
  | YearChange string
  | ExportToExcel

definition whenMounted :: "controllerB \<Rightarrow> controllerB \<Rightarrow> controllerB option" where
  "whenMounted w w' = (if phase w = Mounted then Some w' else None)"

fun step_B :: "event \<Rightarrow> controllerB \<Rightarrow> controllerB option" where
  "step_B (Settle i r now) w =
     (if i < length (pending w)
      then Some (resume_B (pending w ! i) now r
                   (w\<lparr>pending := take i (pending w) @ drop (Suc i) (pending w),
                      settled := Suc (settled w)\<rparr>))
      else None)"
| "step_B Mount w =
     (if phase w = Starting \<and> InitialLoad \<notin> set (pending w)
      then Some (w\<lparr>phase := Mounted, refreshInterval := True\<rparr>)
      else None)"
| "step_B Tick w = (if refreshInterval w then Some (refreshData_B w) else None)"
| "step_B Destroy w = (if phase w \<noteq> Destroyed then Some (w\<lparr>phase := Destroyed\<rparr>) else None)"
| "step_B (DepartmentChange v) w = whenMounted w (onDepartmentChange_B v w)"
| "step_B ClearFilters w = whenMounted w (clearFilters_B w)"
| "step_B (SetActiveTab tab) w = whenMounted w (setActiveTab_B tab w)"
| "step_B ToggleLeaveList w = whenMounted w (toggleLeaveList_B w)"
| "step_B (MonthChange v) w = whenMounted w (onMonthChange_B v w)"
| "step_B (YearChange v) w = whenMounted w (onYearChange_B v w)"
| "step_B ExportToExcel w = whenMounted w (exportToExcel_B w)"

fun run_B :: "event list \<Rightarrow> controllerB \<Rightarrow> controllerB option" where
  "run_B [] w = Some w"
| "run_B (e # es) w = (case step_B e w of None \<Rightarrow> None | Some w' \<Rightarrow> run_B es w')"

section \<open>Variant A: the dashboard with the job filter\<close>

text \<open>
  The places where the handlers modelled here wait for a remote call: the
  \<^verbatim>\<open>loadDashboardData\<close> of \<^verbatim>\<open>onWillStart\<close>, the one inside \<^verbatim>\<open>refreshData\<close>, and a
  \<^verbatim>\<open>loadMonthlySummary\<close>.
\<close>

datatype taskA = InitialLoad_A | RefreshDashboard_A | MonthlySummary_A

type_synonym controllerA = "(stateA, taskA) controller"

text \<open>
  \<^verbatim>\<open>loadDashboardData\<close> up to its \<^verbatim>\<open>await\<close>, and from it on:
  \<^verbatim>\<open>
    try {
        const data = await this.orm.call("attendance.dashboard",
            "get_all_dashboard_data",
            [this.state.selectedDepartment, this.state.selectedJob]);
        this.state.todayStats = data.today_stats;
        this.state.recentCheckins = data.recent_checkins;
        this.state.monthlySummary = data.monthly_summary;
        this.state.departments = data.departments;
        this.state.jobs = data.jobs;
        this.state.lastUpdate = new Date().toLocaleTimeString();
        this.state.loading = false;
    } catch (error) {
        console.error("...", error);
        this.state.loading = false;
    }
  \<close>
\<close>

definition loadDashboardData_A :: "taskA \<Rightarrow> controllerA \<Rightarrow> controllerA" where
  "loadDashboardData_A k w =
     ormCall (''attendance.dashboard'', ''get_all_dashboard_data'',
              [toJson (selectedDepartment (state w)), toJson (selectedJob (state w))]) k w"

definition loadDashboardData_A_then :: "clock \<Rightarrow> exn + json \<Rightarrow> (stateA, unit) js" where
  "loadDashboardData_A_then now r =
     tryCatch
       (andThen (expr r) (\<lambda>data.
        seq (assignFrom (getProp data ''today_stats'') (\<lambda>v s. s\<lparr>todayStats := v\<rparr>))
       (seq (assignFrom (getProp data ''recent_checkins'') (\<lambda>v s. s\<lparr>recentCheckins := v\<rparr>))
       (seq (assignFrom (getProp data ''monthly_summary'') (\<lambda>v s. s\<lparr>monthlySummary := v\<rparr>))
       (seq (assignFrom (getProp data ''departments'') (\<lambda>v s. s\<lparr>departments := v\<rparr>))
       (seq (assignFrom (getProp data ''jobs'') (\<lambda>v s. s\<lparr>jobs := v\<rparr>))
       (seq (assign (\<lambda>s. s\<lparr>lastUpdate := toLocaleTimeString now\<rparr>))
            (assign (\<lambda>s. s\<lparr>loading := False\<rparr>)))))))))
       (\<lambda>error. assign (\<lambda>s. s\<lparr>loading := False\<rparr>))"

text \<open>\<^verbatim>\<open>loadMonthlySummary\<close> up to its \<^verbatim>\<open>await\<close>.\<close>

definition loadMonthlySummary_A :: "taskA \<Rightarrow> controllerA \<Rightarrow> controllerA" where
  "loadMonthlySummary_A k w =
     ormCall (''attendance.dashboard'', ''get_monthly_work_summary'',
              [toJson (selectedDepartment (state w)), toJson (selectedJob (state w)),
               toJson (selectedMonth (state w)), toJson (selectedYear (state w))]) k w"

text \<open>
  \<^verbatim>\<open>refreshData\<close> up to its \<^verbatim>\<open>await\<close>; the rest of it is in \<open>resume_A\<close>.
  \<^verbatim>\<open>
    this.state.refreshing = true;
    await this.loadDashboardData();
    this.state.refreshing = false;
  \<close>
\<close>

definition refreshData_A :: "controllerA \<Rightarrow> controllerA" where
  "refreshData_A w =
     loadDashboardData_A RefreshDashboard_A (w\<lparr>state := (state w)\<lparr>refreshing := True\<rparr>\<rparr>)"

fun resume_A :: "taskA \<Rightarrow> clock \<Rightarrow> exn + json \<Rightarrow> controllerA \<Rightarrow> controllerA" where
  "resume_A InitialLoad_A now r w = awaited (loadDashboardData_A_then now r) (\<lambda>w. w) w"
| "resume_A RefreshDashboard_A now r w =
     awaited (loadDashboardData_A_then now r)
       (\<lambda>w. w\<lparr>state := (state w)\<lparr>refreshing := False\<rparr>\<rparr>) w"
| "resume_A MonthlySummary_A now r w = awaited (loadMonthlySummary_then r) (\<lambda>w. w) w"

definition onMonthChange_A :: "string \<Rightarrow> controllerA \<Rightarrow> controllerA" where
  "onMonthChange_A v w =
     loadMonthlySummary_A MonthlySummary_A
       (w\<lparr>state := (state w)\<lparr>selectedMonth := Some (parseInt v)\<rparr>\<rparr>)"

definition onYearChange_A :: "string \<Rightarrow> controllerA \<Rightarrow> controllerA" where
  "onYearChange_A v w =
     loadMonthlySummary_A MonthlySummary_A
       (w\<lparr>state := (state w)\<lparr>selectedYear := Some (parseInt v)\<rparr>\<rparr>)"

text \<open>
  \<^verbatim>\<open>exportToExcel\<close>, as in variant B with one more parameter: after the department,
  \<^verbatim>\<open>
    if (this.state.selectedJob) {
        params.push(`job_id=${this.state.selectedJob}`);
    }
  \<close>
\<close>

definition exportParams_A :: "stateA \<Rightarrow> string list" where
  "exportParams_A s =
     pushParam ''year'' (selectedYear s)
       (pushParam ''month'' (selectedMonth s)
         (pushParam ''job_id'' (selectedJob s)
           (pushParam ''department_id'' (selectedDepartment s) [])))"

definition exportUrl_A :: "stateA \<Rightarrow> string" where
  "exportUrl_A s = ''/attendance_dashboard/export_monthly_excel?'' @ join ''&'' (exportParams_A s)"

definition exportToExcel_A :: "controllerA \<Rightarrow> controllerA" where
  "exportToExcel_A w = w\<lparr>opened := opened w @ [(exportUrl_A (state w), ''_blank'')]\<rparr>"

section \<open>What holds of the controller while it runs\<close>

text \<open>A \<^verbatim>\<open>refreshData\<close> is in flight: one of its two awaited calls is pending.\<close>

definition refreshInFlight :: "controllerB \<Rightarrow> bool" where
  "refreshInFlight w =
     (RefreshDashboard \<in> set (pending w) \<or> RefreshMonthly \<in> set (pending w))"

text \<open>
  The invariant of variant B. While \<open>loading\<close> is set no call has been settled and the
  first load is the only call awaited; while the first load is awaited the component is not
  mounted, the timer is not registered and \<open>refreshing\<close> is clear; \<open>refreshing\<close> is set
  only while a \<^verbatim>\<open>refreshData\<close> is in flight; and no exception has left a handler.
\<close>

definition invariant_B :: "controllerB \<Rightarrow> bool" where
  "invariant_B w =
     ((loading (state w) \<longrightarrow> settled w = 0 \<and> pending w = [InitialLoad]) \<and>
      (InitialLoad \<in> set (pending w) \<longrightarrow>
         pending w = [InitialLoad] \<and> phase w \<noteq> Mounted \<and> \<not> refreshInterval w \<and>
         \<not> refreshing (state w)) \<and>
      (refreshing (state w) \<longrightarrow> refreshInFlight w) \<and>
      rejected w = [])"

section \<open>Facts about the helpers\<close>

lemma split_nonempty: "split c s \<noteq> []"
  by (induction s) (auto split: list.splits)

lemma split_single: "length (split c s) < 2 \<longleftrightarrow> c \<notin> set s"
proof (induction s)
  case Nil
  show ?case by simp
next
  case (Cons x xs)
  then show ?case
    using split_nonempty [of c xs]
    by (cases "split c xs") (auto split: list.splits)
qed

lemma toUpperChar_question: "toUpperChar c = CHR ''?'' \<longleftrightarrow> c = CHR ''?''"
  by (auto simp: toUpperChar_def split: option.splits if_splits)

lemma toUpperCase_undefined: "toUpperCase ''undefined'' = ''UNDEFINED''"
  by (simp add: toUpperCase_def toUpperChar_def)

lemma initials_undefined_left:
  "callToUpperCase (jsAdd None (Some [c])) = Inr (''UNDEFINED'' @ [toUpperChar c])"
  by (simp add: toUpperCase_def toUpperChar_def)

lemma initials_undefined_right:
  "callToUpperCase (jsAdd (Some [c]) None) = Inr (toUpperChar c # ''UNDEFINED'')"
  by (simp add: toUpperCase_def toUpperChar_def)

lemma initials_undefined_both: "callToUpperCase (jsAdd None None) = Inl TypeError"
  by simp

lemma getInitials_parts:
  assumes "split CHR '' '' name = p0 # p1 # rest"
  shows "getInitials name = callToUpperCase (jsAdd (charAt0 p0) (charAt0 p1))"
proof -
  from assms have "name \<noteq> []" by auto
  with assms show ?thesis by (simp add: getInitials_def Let_def)
qed

lemma getInitials_single:
  assumes "name \<noteq> []" and "length (split CHR '' '' name) < 2"
  shows "getInitials name = Inr (toUpperCase (take 2 name))"
  using assms by (simp add: getInitials_def Let_def substring0_def)

lemma getInitials_two:
  assumes "split CHR '' '' name = (a # as) # (b # bs) # rest"
  shows "getInitials name = Inr [toUpperChar a, toUpperChar b]"
  by (simp add: getInitials_parts [OF assms] toUpperCase_def)

lemma getInitials_parts_not_question:
  assumes "split CHR '' '' name = p0 # p1 # rest"
  shows "getInitials name \<noteq> Inr ''?''"
  by (cases p0; cases p1) (simp_all add: getInitials_parts [OF assms] toUpperCase_def)

lemma getInitials_question_iff:
  "getInitials name = Inr ''?'' \<longleftrightarrow> name = [] \<or> name = ''?''"
proof (cases "name = []")
  case True
  then show ?thesis by (simp add: getInitials_def)
next
  case False
  show ?thesis
  proof (cases "length (split CHR '' '' name) < 2")
    case True
    have "toUpperCase (take 2 name) = ''?'' \<longleftrightarrow> name = ''?''"
    proof (cases name)
      case Nil
      with False show ?thesis by simp
    next
      case (Cons c cs)
      then show ?thesis
        by (cases cs) (simp_all add: toUpperCase_def toUpperChar_question)
    qed
    with False True show ?thesis by (simp add: getInitials_single)
  next
    case False
    then obtain p0 p1 rest where "split CHR '' '' name = p0 # p1 # rest"
      by (cases "split CHR '' '' name"; cases "tl (split CHR '' '' name)") auto
    from getInitials_parts_not_question [OF this] this show ?thesis by auto
  qed
qed

lemma exportParams_A_eq:
  "exportParams_A s =
     pushParam ''department_id'' (selectedDepartment s) [] @
     pushParam ''job_id'' (selectedJob s) [] @
     pushParam ''month'' (selectedMonth s) [] @ pushParam ''year'' (selectedYear s) []"
  by (simp add: exportParams_A_def pushParam_def split: option.splits)

lemma exportParams_B_eq:
  "exportParams_B s =
     pushParam ''department_id'' (selectedDepartment s) [] @
     pushParam ''month'' (selectedMonth s) [] @ pushParam ''year'' (selectedYear s) []"
  by (simp add: exportParams_B_def pushParam_def split: option.splits)

lemma pushParam_cases:
  "pushParam key None [] = []"
  "pushParam key (Some n) [] = (if n = NaN \<or> n = Num 0 then [] else [key @ ''='' @ toString n])"
  by (cases n; simp add: pushParam_def)+

lemma showInt_3: "showInt 3 = ''3''"
  by (simp add: showInt_def)

lemma showInt_2024: "showInt 2024 = ''2024''"
  by (simp add: showInt_def)

section \<open>Facts about the handlers\<close>

lemma loadMonthlySummary_then_eq:
  "loadMonthlySummary_then r s =
     (Inr (), case r of Inl e \<Rightarrow> s | Inr data \<Rightarrow> s\<lparr>monthlySummary := data\<rparr>)"
  by (simp add: loadMonthlySummary_then_def tryCatch_def assignFrom_def andThen_def expr_def
      assign_def split: sum.splits)

lemma loadDashboardData_B_then_eq:
  "loadDashboardData_B_then now r s =
     (Inr (),
      case r of
        Inl e \<Rightarrow> s\<lparr>loading := False\<rparr>
      | Inr data \<Rightarrow>
          if isNullish data then s\<lparr>loading := False\<rparr>
          else s\<lparr>todayStats := propValue data ''today_stats'',
                 absentEmployees := propValue data ''absent_employees'',
                 onLeaveEmployees :=
                   (if truthy (propValue data ''on_leave_employees'')
                    then propValue data ''on_leave_employees'' else JArray []),
                 departments := propValue data ''departments'',
                 lastUpdate := toLocaleTimeString now,
                 loading := False\<rparr>)"
  by (simp add: loadDashboardData_B_then_def tryCatch_def assignFrom_def andThen_def expr_def
      assign_def seq_def getProp_def split: sum.splits)

lemma loadDashboardData_A_then_eq:
  "loadDashboardData_A_then now r s =
     (Inr (),
      case r of
        Inl e \<Rightarrow> s\<lparr>loading := False\<rparr>
      | Inr data \<Rightarrow>
          if isNullish data then s\<lparr>loading := False\<rparr>
          else s\<lparr>todayStats := propValue data ''today_stats'',
                 recentCheckins := propValue data ''recent_checkins'',
                 monthlySummary := propValue data ''monthly_summary'',
                 departments := propValue data ''departments'',
                 jobs := propValue data ''jobs'',
                 lastUpdate := toLocaleTimeString now,
                 loading := False\<rparr>)"
  by (simp add: loadDashboardData_A_then_def tryCatch_def assignFrom_def andThen_def expr_def
      assign_def seq_def getProp_def split: sum.splits)

lemma resume_B_eqs:
  "resume_B InitialLoad now r w = w\<lparr>state := snd (loadDashboardData_B_then now r (state w))\<rparr>"
  "resume_B RefreshDashboard now r w =
     (let w1 = w\<lparr>state := snd (loadDashboardData_B_then now r (state w))\<rparr>
      in if activeTab (state w) = ''monthly'' then loadMonthlySummary_B RefreshMonthly w1
         else w1\<lparr>state := (state w1)\<lparr>refreshing := False\<rparr>\<rparr>)"
  "resume_B RefreshMonthly now r w =
     w\<lparr>state := (snd (loadMonthlySummary_then r (state w)))\<lparr>refreshing := False\<rparr>\<rparr>"
  "resume_B MonthlySummary now r w = w\<lparr>state := snd (loadMonthlySummary_then r (state w))\<rparr>"
  by (simp_all add: awaited_def loadDashboardData_B_then_eq loadMonthlySummary_then_eq Let_def
      split: sum.splits)

declare resume_B.simps [simp del]

lemma set_remove_nth_subset: "set (take i xs @ drop (Suc i) xs) \<subseteq> set xs"
  by (auto dest: in_set_takeD in_set_dropD)

lemma set_remove_nth_other:
  assumes "i < length xs" and "x \<in> set xs" and "x \<noteq> xs ! i"
  shows "x \<in> set (take i xs @ drop (Suc i) xs)"
proof -
  have eq: "take i xs @ [xs ! i] @ drop (Suc i) xs = xs"
    using assms(1) by (simp add: id_take_nth_drop [symmetric])
  have "x \<in> set (take i xs @ [xs ! i] @ drop (Suc i) xs)"
    using assms(2) by (simp only: eq)
  with assms(3) show ?thesis by auto
qed

lemma refreshData_B_eq:
  "refreshData_B w =
     w\<lparr>state := (state w)\<lparr>refreshing := True\<rparr>,
       calls := calls w @ [(''attendance.dashboard'', ''get_all_dashboard_data'',
                            [toJson (selectedDepartment (state w))])],
       pending := pending w @ [RefreshDashboard]\<rparr>"
  by (simp add: refreshData_B_def loadDashboardData_B_def ormCall_def)

lemma loading_after_dashboard: "\<not> loading (snd (loadDashboardData_B_then now r s))"
  by (simp add: loadDashboardData_B_then_eq split: sum.splits)

lemma refreshing_after_dashboard:
  "refreshing (snd (loadDashboardData_B_then now r s)) = refreshing s"
  by (simp add: loadDashboardData_B_then_eq split: sum.splits)

lemma flags_after_monthly:
  "loading (snd (loadMonthlySummary_then r s)) = loading s"
  "refreshing (snd (loadMonthlySummary_then r s)) = refreshing s"
  by (simp_all add: loadMonthlySummary_then_eq split: sum.splits)

lemma resume_B_fields:
  "phase (resume_B k now r w) = phase w"
  "refreshInterval (resume_B k now r w) = refreshInterval w"
  "settled (resume_B k now r w) = settled w"
  "rejected (resume_B k now r w) = rejected w"
  "opened (resume_B k now r w) = opened w"
  by (cases k; simp add: resume_B_eqs Let_def loadMonthlySummary_B_def ormCall_def)+

lemma resume_B_pending:
  "pending (resume_B k now r w) =
     pending w @ (if k = RefreshDashboard \<and> activeTab (state w) = ''monthly'' then [RefreshMonthly] else [])"
  by (cases k; simp add: resume_B_eqs Let_def loadMonthlySummary_B_def ormCall_def)

lemma resume_B_loading:
  "loading (state (resume_B k now r w)) =
     (if k = InitialLoad \<or> k = RefreshDashboard then False else loading (state w))"
  by (cases k; simp add: resume_B_eqs Let_def loadMonthlySummary_B_def ormCall_def
      loading_after_dashboard flags_after_monthly)

lemma resume_B_refreshing:
  "refreshing (state (resume_B k now r w)) =
     (if k = RefreshMonthly \<or> (k = RefreshDashboard \<and> activeTab (state w) \<noteq> ''monthly'') then False
      else refreshing (state w))"
  by (cases k; simp add: resume_B_eqs Let_def loadMonthlySummary_B_def ormCall_def
      refreshing_after_dashboard flags_after_monthly)

lemma invariant_B_settle:
  assumes inv: "invariant_B w" and i: "i < length (pending w)"
  shows "invariant_B (resume_B (pending w ! i) now r
           (w\<lparr>pending := take i (pending w) @ drop (Suc i) (pending w), settled := Suc (settled w)\<rparr>))"
    (is "invariant_B (resume_B ?k now r ?w)")
proof (cases "InitialLoad \<in> set (pending w)")
  case True
  with inv have p: "pending w = [InitialLoad]" and "\<not> refreshing (state w)" and "rejected w = []"
    by (simp_all add: invariant_B_def)
  with i have "i = 0" by simp
  with p \<open>\<not> refreshing (state w)\<close> \<open>rejected w = []\<close> show ?thesis
    by (simp add: invariant_B_def resume_B_fields resume_B_pending resume_B_loading
        resume_B_refreshing refreshInFlight_def)
next
  case False
  with inv have nl: "\<not> loading (state w)" by (auto simp: invariant_B_def)
  from False i have k: "?k \<noteq> InitialLoad" by (metis nth_mem)
  have sub: "set (pending ?w) \<subseteq> set (pending w)"
    using set_remove_nth_subset [of i "pending w"] by simp
  with False have ni: "InitialLoad \<notin> set (pending ?w)" by auto
  have keep: "x \<in> set (pending ?w)" if "x \<in> set (pending w)" "x \<noteq> ?k" for x
    using set_remove_nth_other [OF i that] by simp
  have rf: "refreshInFlight (resume_B ?k now r ?w)"
    if "refreshing (state (resume_B ?k now r ?w))"
  proof -
    from that have r: "refreshing (state w)" and
      c: "?k \<noteq> RefreshMonthly" "?k = RefreshDashboard \<longrightarrow> activeTab (state w) = ''monthly''"
      by (auto simp: resume_B_refreshing split: if_splits)
    from inv r have "refreshInFlight w" by (simp add: invariant_B_def)
    then show ?thesis
    proof (cases "?k = RefreshDashboard")
      case True
      with c show ?thesis by (simp add: refreshInFlight_def resume_B_pending)
    next
      case False
      with c \<open>refreshInFlight w\<close> keep [of RefreshDashboard] keep [of RefreshMonthly]
      show ?thesis by (auto simp: refreshInFlight_def resume_B_pending)
    qed
  qed
  from inv have "rejected w = []" by (simp add: invariant_B_def)
  with nl ni rf k show ?thesis
    by (auto simp: invariant_B_def resume_B_fields resume_B_pending resume_B_loading
        split: if_splits)
qed

lemma invariant_B_mounted:
  assumes "invariant_B w" and "phase w = Mounted \<or> refreshInterval w"
  shows "InitialLoad \<notin> set (pending w)" and "\<not> loading (state w)"
  using assms by (auto simp: invariant_B_def)

lemma invariant_B_step:
  assumes inv: "invariant_B w" and st: "step_B e w = Some w'"
  shows "invariant_B w'"
proof (cases e)
  case (Settle i r now)
  with st inv show ?thesis by (auto simp: invariant_B_settle split: if_splits)
next
  case Mount
  with st inv show ?thesis by (auto simp: invariant_B_def refreshInFlight_def split: if_splits)
next
  case Tick
  with st have t: "refreshInterval w" and w': "w' = refreshData_B w" by (auto split: if_splits)
  from invariant_B_mounted [OF inv] t inv show ?thesis
    unfolding w' by (auto simp: invariant_B_def refreshData_B_eq refreshInFlight_def)
next
  case Destroy
  with st inv show ?thesis by (auto simp: invariant_B_def refreshInFlight_def split: if_splits)
next
  case (DepartmentChange v)
  with st have t: "phase w = Mounted" and w': "w' = onDepartmentChange_B v w"
    by (auto simp: whenMounted_def split: if_splits)
  from invariant_B_mounted [OF inv] t inv show ?thesis
    unfolding w' by (auto simp: invariant_B_def onDepartmentChange_B_def refreshData_B_eq refreshInFlight_def)
next
  case ClearFilters
  with st have t: "phase w = Mounted" and w': "w' = clearFilters_B w"
    by (auto simp: whenMounted_def split: if_splits)
  from invariant_B_mounted [OF inv] t inv show ?thesis
    unfolding w' by (auto simp: invariant_B_def clearFilters_B_def refreshData_B_eq refreshInFlight_def)
next
  case (SetActiveTab tab)
  with st have t: "phase w = Mounted" and w': "w' = setActiveTab_B tab w"
    by (auto simp: whenMounted_def split: if_splits)
  from invariant_B_mounted [OF inv] t inv show ?thesis
    unfolding w' by (auto simp: invariant_B_def setActiveTab_B_def Let_def loadMonthlySummary_B_def ormCall_def refreshInFlight_def)
next
  case ToggleLeaveList
  with st have t: "phase w = Mounted" and w': "w' = toggleLeaveList_B w"
    by (auto simp: whenMounted_def split: if_splits)
  from invariant_B_mounted [OF inv] t inv show ?thesis
    unfolding w' by (auto simp: invariant_B_def toggleLeaveList_B_def refreshInFlight_def)
next
  case (MonthChange v)
  with st have t: "phase w = Mounted" and w': "w' = onMonthChange_B v w"
    by (auto simp: whenMounted_def split: if_splits)
  from invariant_B_mounted [OF inv] t inv show ?thesis
    unfolding w' by (auto simp: invariant_B_def onMonthChange_B_def loadMonthlySummary_B_def ormCall_def refreshInFlight_def)
next
  case (YearChange v)
  with st have t: "phase w = Mounted" and w': "w' = onYearChange_B v w"
    by (auto simp: whenMounted_def split: if_splits)
  from invariant_B_mounted [OF inv] t inv show ?thesis
    unfolding w' by (auto simp: invariant_B_def onYearChange_B_def loadMonthlySummary_B_def ormCall_def refreshInFlight_def)
next
  case ExportToExcel
  with st have t: "phase w = Mounted" and w': "w' = exportToExcel_B w"
    by (auto simp: whenMounted_def split: if_splits)
  from invariant_B_mounted [OF inv] t inv show ?thesis
    unfolding w' by (auto simp: invariant_B_def exportToExcel_B_def refreshInFlight_def)
qed

lemma invariant_B_start: "invariant_B (start_B now)"
  by (simp add: invariant_B_def start_B_def loadDashboardData_B_def ormCall_def setup_B_def)

lemma invariant_B_run:
  "invariant_B w \<Longrightarrow> run_B es w = Some w' \<Longrightarrow> invariant_B w'"
proof (induction es arbitrary: w)
  case Nil
  then show ?case by simp
next
  case (Cons e es)
  then show ?case by (auto split: option.splits dest: invariant_B_step)
qed

lemma loading_stays_false_step:
  "step_B e w = Some w' \<Longrightarrow> \<not> loading (state w) \<Longrightarrow> \<not> loading (state w')"
  by (cases e)
    (auto simp: resume_B_loading whenMounted_def refreshData_B_eq onDepartmentChange_B_def
      clearFilters_B_def setActiveTab_B_def Let_def toggleLeaveList_B_def onMonthChange_B_def
      onYearChange_B_def exportToExcel_B_def loadMonthlySummary_B_def ormCall_def
      split: if_splits)

lemma loading_stays_false_run:
  "run_B es w = Some w' \<Longrightarrow> \<not> loading (state w) \<Longrightarrow> \<not> loading (state w')"
proof (induction es arbitrary: w)
  case Nil
  then show ?case by simp
next
  case (Cons e es)
  then show ?case by (auto split: option.splits dest: loading_stays_false_step)
qed

lemmas run_B_eval =
  start_B_def setup_B_def loadDashboardData_B_def ormCall_def resume_B.simps awaited_def
  loadDashboardData_B_then_eq loadMonthlySummary_then_eq refreshData_B_def whenMounted_def
  isNullish_def refreshInFlight_def

section \<open>The claims\<close>

text \<open>
  C1. \<^verbatim>\<open>exportToExcel\<close> opens, in a new browsing context, the fixed path
  \<^verbatim>\<open>/attendance_dashboard/export_monthly_excel\<close> followed by \<^verbatim>\<open>?\<close> and the parameters
  joined by \<^verbatim>\<open>&\<close>: in this order, one for the department, the job (variant A), the month
  and the year. A field that is \<^verbatim>\<open>null\<close> contributes no parameter; a field holding a
  number contributes \<^verbatim>\<open>key=number\<close> unless the number is \<^verbatim>\<open>0\<close> or \<^verbatim>\<open>NaN\<close>, which the
  test of the source also takes as absent. So a parameter is in the query only when its
  field is not \<^verbatim>\<open>null\<close>. With all the fields \<^verbatim>\<open>null\<close> the query string is empty; with
  department 3 and year 2024 and the other fields \<^verbatim>\<open>null\<close> it is exactly
  \<^verbatim>\<open>department_id=3&year=2024\<close>.
\<close>

theorem exportToExcel_query:
  "opened (exportToExcel_A wa) = opened wa @ [(exportUrl_A (state wa), ''_blank'')] \<and>
   opened (exportToExcel_B wb) = opened wb @ [(exportUrl_B (state wb), ''_blank'')] \<and>
   exportUrl_A sa = ''/attendance_dashboard/export_monthly_excel?'' @ join ''&''
     (pushParam ''department_id'' (selectedDepartment sa) [] @
      pushParam ''job_id'' (selectedJob sa) [] @
      pushParam ''month'' (selectedMonth sa) [] @ pushParam ''year'' (selectedYear sa) []) \<and>
   exportUrl_B sb = ''/attendance_dashboard/export_monthly_excel?'' @ join ''&''
     (pushParam ''department_id'' (selectedDepartment sb) [] @
      pushParam ''month'' (selectedMonth sb) [] @ pushParam ''year'' (selectedYear sb) []) \<and>
   pushParam key None [] = [] \<and>
   pushParam key (Some n) [] =
     (if n = NaN \<or> n = Num 0 then [] else [key @ ''='' @ toString n]) \<and>
   exportUrl_A (sa\<lparr>selectedDepartment := None, selectedJob := None, selectedMonth := None,
                   selectedYear := None\<rparr>)
     = ''/attendance_dashboard/export_monthly_excel?'' \<and>
   exportUrl_B (sb\<lparr>selectedDepartment := None, selectedMonth := None, selectedYear := None\<rparr>)
     = ''/attendance_dashboard/export_monthly_excel?'' \<and>
   exportUrl_A (sa\<lparr>selectedDepartment := Some (Num 3), selectedJob := None,
                   selectedMonth := None, selectedYear := Some (Num 2024)\<rparr>)
     = ''/attendance_dashboard/export_monthly_excel?department_id=3&year=2024'' \<and>
   exportUrl_B (sb\<lparr>selectedDepartment := Some (Num 3), selectedMonth := None,
                   selectedYear := Some (Num 2024)\<rparr>)
     = ''/attendance_dashboard/export_monthly_excel?department_id=3&year=2024''"
  unfolding exportUrl_A_def exportUrl_B_def exportParams_A_eq exportParams_B_eq
    exportToExcel_A_def exportToExcel_B_def
  by (simp add: pushParam_cases showInt_3 showInt_2024)

text \<open>
  C4, as amended. For every name of ASCII characters: \<^verbatim>\<open>getInitials\<close> returns
  \<^verbatim>\<open>"?"\<close> when the name is empty, and for no other name but the name \<^verbatim>\<open>"?"\<close> itself.
  When the first two pieces of the name split at spaces are both non-empty, it returns
  exactly two characters, the upper case of the first character of each. When the name is
  not empty and has a single piece (no space), it returns the upper case of its first two
  characters. (Names with an empty first or second piece are the subject of C10.)
\<close>

theorem getInitials_amended:
  assumes "isAscii name"
  shows "(name = [] \<longrightarrow> getInitials name = Inr ''?'') \<and>
   (getInitials name = Inr ''?'' \<longleftrightarrow> name = [] \<or> name = ''?'') \<and>
   (\<forall>a as b bs rest. split CHR '' '' name = (a # as) # (b # bs) # rest \<longrightarrow>
      getInitials name = Inr [toUpperChar a, toUpperChar b]) \<and>
   (name \<noteq> [] \<and> length (split CHR '' '' name) < 2 \<longrightarrow>
      getInitials name = Inr (toUpperCase (substring0 2 name)))"
  using getInitials_question_iff [of name] getInitials_two [of name] getInitials_single [of name]
  by (auto simp: substring0_def)

theorem getInitials_amended_witness:
  "isAscii [] \<and> getInitials [] = Inr ''?'' \<and>
   isAscii ''?'' \<and> getInitials ''?'' = Inr ''?'' \<and>
   isAscii ''ali valiyev'' \<and>
   split CHR '' '' ''ali valiyev'' = [''ali'', ''valiyev''] \<and>
   getInitials ''ali valiyev'' = Inr ''AV'' \<and>
   isAscii ''bek'' \<and>
   ''bek'' \<noteq> [] \<and> length (split CHR '' '' ''bek'') < 2 \<and> getInitials ''bek'' = Inr ''BE''"
proof -
  have a: "isAscii []" "isAscii ''?''" "isAscii ''ali valiyev''" "isAscii ''bek''"
    by (simp_all add: isAscii_def)
  from a getInitials_amended [OF a(1)] getInitials_amended [OF a(2)]
    getInitials_amended [OF a(3)] getInitials_amended [OF a(4)]
  show ?thesis
    by (simp add: toUpperCase_def toUpperChar_def substring0_def)
qed

text \<open>
  C4 as it was stated fails twice. The name \<^verbatim>\<open>"?"\<close> is not empty and its initials are
  \<^verbatim>\<open>"?"\<close>, so \<^verbatim>\<open>"?"\<close> is not returned for the empty name only. And the name
  \<^verbatim>\<open>"ali "\<close> splits into two pieces, yet the result is not two characters.
\<close>

theorem getInitials_counterexample:
  "''?'' \<noteq> [] \<and> getInitials ''?'' = Inr ''?'' \<and>
   length (split CHR '' '' ''ali '') \<ge> 2 \<and> getInitials ''ali '' = Inr ''AUNDEFINED''"
  by (simp add: getInitials_def toUpperCase_def toUpperChar_def substring0_def)

text \<open>
  C8, as amended. For every number \<open>rate\<close>, \<^verbatim>\<open>getProgressColor\<close> returns the green
  \<^verbatim>\<open>#10b981\<close> exactly when \<^verbatim>\<open>rate >= 90\<close>, the amber \<^verbatim>\<open>#f59e0b\<close> exactly when
  \<^verbatim>\<open>70 <= rate\<close> and \<^verbatim>\<open>rate < 90\<close>, and the red \<^verbatim>\<open>#ef4444\<close> exactly when
  \<^verbatim>\<open>rate >= 70\<close> is false, that is when \<^verbatim>\<open>rate < 70\<close> or the rate is \<^verbatim>\<open>NaN\<close>; 90 is
  green, 89.9 and 70 are amber, 69.9 is red.
\<close>

theorem getProgressColor_thresholds:
  "(getProgressColor rate = ''#10b981'' \<longleftrightarrow> jsGreaterEq rate 90) \<and>
   (getProgressColor rate = ''#f59e0b'' \<longleftrightarrow> jsGreaterEq rate 70 \<and> jsLess rate 90) \<and>
   (getProgressColor rate = ''#ef4444'' \<longleftrightarrow> \<not> jsGreaterEq rate 70) \<and>
   ((\<not> jsGreaterEq rate 70) \<longleftrightarrow> (jsLess rate 70 \<or> rate = NotANumber)) \<and>
   getProgressColor (Finite 90) = ''#10b981'' \<and>
   getProgressColor (Finite 89.9) = ''#f59e0b'' \<and>
   getProgressColor (Finite 70) = ''#f59e0b'' \<and>
   getProgressColor (Finite 69.9) = ''#ef4444''"
  by (cases rate) (simp_all add: getProgressColor_def)

text \<open>
  C8 as it was stated fails at \<^verbatim>\<open>NaN\<close> (and so at a rate that is \<^verbatim>\<open>undefined\<close>): both
  tests of the source are false there and the red colour is returned, although
  \<^verbatim>\<open>NaN < 70\<close> is false.
\<close>

theorem getProgressColor_counterexample:
  "getProgressColor NotANumber = ''#ef4444'' \<and> \<not> jsLess NotANumber 70"
  by (simp add: getProgressColor_def)

text \<open>
  C9. The patched getter \<^verbatim>\<open>actionMenuItems\<close> returns the empty menu-items object for
  the model \<^verbatim>\<open>hr.daily.report\<close>, and for every other model what the getter of the
  unpatched controller returns, unchanged.
\<close>

theorem actionMenuItems_patch:
  "actionMenuItems super_items ''hr.daily.report'' = [] \<and>
   (\<forall>resModel. resModel \<noteq> ''hr.daily.report'' \<longrightarrow>
      actionMenuItems super_items resModel = super_items)"
  by (simp add: actionMenuItems_def)

theorem actionMenuItems_patch_witness:
  "''hr.employee'' \<noteq> ''hr.daily.report'' \<and>
   actionMenuItems [(''action'', [''Duplicate'', ''Delete''])] ''hr.employee''
     = [(''action'', [''Duplicate'', ''Delete''])] \<and>
   actionMenuItems [(''action'', [''Duplicate'', ''Delete''])] ''hr.daily.report'' = []"
  using actionMenuItems_patch [of "[(''action'', [''Duplicate'', ''Delete''])]"]
  by simp

text \<open>
  C10. \<^verbatim>\<open>getInitials\<close> reads the first character of the first two pieces without
  checking that they are non-empty. For a non-empty name whose first or second piece (of
  the split at spaces) is empty, one of the reads \<^verbatim>\<open>parts[0][0]\<close>, \<^verbatim>\<open>parts[1][0]\<close> is out
  of range and gives \<^verbatim>\<open>undefined\<close>, and the result is never two initials: with one empty
  piece the text \<^verbatim>\<open>undefined\<close> is concatenated with the other initial and the ten
  characters are returned in upper case; with both pieces empty the sum is \<^verbatim>\<open>NaN\<close> and
  the call of \<^verbatim>\<open>toUpperCase\<close> on it throws.
\<close>

theorem getInitials_empty_part:
  assumes "name \<noteq> []"
    and "split CHR '' '' name = p0 # p1 # rest"
    and "p0 = [] \<or> p1 = []"
  shows "(charAt0 p0 = None \<or> charAt0 p1 = None) \<and>
         (p0 = [] \<and> p1 = [] \<longrightarrow> getInitials name = Inl TypeError) \<and>
         (\<forall>c cs. p0 = [] \<and> p1 = c # cs \<longrightarrow>
            getInitials name = Inr (''UNDEFINED'' @ [toUpperChar c])) \<and>
         (\<forall>c cs. p0 = c # cs \<and> p1 = [] \<longrightarrow>
            getInitials name = Inr (toUpperChar c # ''UNDEFINED'')) \<and>
         (\<forall>r. getInitials name = Inr r \<longrightarrow> length r = 10)"
proof -
  note gi = getInitials_parts [OF assms(2)]
  consider (both) "p0 = []" "p1 = []"
    | (first) c cs where "p0 = []" "p1 = c # cs"
    | (second) c cs where "p0 = c # cs" "p1 = []"
    using assms(3) by (cases p0; cases p1) auto
  then show ?thesis
  proof cases
    case both
    then have "getInitials name = Inl TypeError"
      by (simp add: gi)
    with both show ?thesis by simp
  next
    case first
    have "getInitials name = Inr (''UNDEFINED'' @ [toUpperChar c])"
      unfolding gi first charAt0.simps by (rule initials_undefined_left)
    with first show ?thesis by simp
  next
    case second
    have "getInitials name = Inr (toUpperChar c # ''UNDEFINED'')"
      unfolding gi second charAt0.simps by (rule initials_undefined_right)
    with second show ?thesis by simp
  qed
qed

theorem getInitials_empty_part_witness:
  "'' ali'' \<noteq> [] \<and> split CHR '' '' '' ali'' = [] # ''ali'' # [] \<and>
   getInitials '' ali'' = Inr ''UNDEFINEDA'' \<and>
   split CHR '' '' ''ali '' = ''ali'' # [] # [] \<and> getInitials ''ali '' = Inr ''AUNDEFINED'' \<and>
   split CHR '' '' '' '' = [] # [] # [] \<and> getInitials '' '' = Inl TypeError"
  using getInitials_empty_part [of "'' ali''" "[]" "''ali''" "[]"]
    getInitials_empty_part [of "''ali ''" "''ali''" "[]" "[]"]
    getInitials_empty_part [of "'' ''" "[]" "[]" "[]"]
  by (simp add: toUpperChar_def)

text \<open>
  C2 (the code does not meet it). After the component is destroyed the interval timer
  should be cancelled and no further fetch issued. The controller registers no hook for
  its destruction and never clears the interval whose handle it keeps in
  \<^verbatim>\<open>refreshInterval\<close>: destroying a mounted component changes nothing but its phase,
  the timer stays registered, and a tick after that runs \<^verbatim>\<open>refreshData\<close>. In the run
  below the first load is settled, the component is mounted and destroyed: one call has
  been issued; after one more tick there are two.
\<close>

theorem refresh_after_destroy:
  "step_B Destroy (w\<lparr>phase := Mounted\<rparr>) = Some (w\<lparr>phase := Destroyed\<rparr>) \<and>
   step_B Tick (w\<lparr>refreshInterval := True\<rparr>) = Some (refreshData_B (w\<lparr>refreshInterval := True\<rparr>)) \<and>
   map_option (\<lambda>w. (phase w, refreshInterval w, map (fst \<circ> snd) (calls w)))
     (run_B [Settle 0 (Inr (JObject []))
                 \<lparr>toLocaleTimeString = ''09:00:05'', getMonth = 10, getFullYear = 2026\<rparr>,
             Mount, Destroy]
        (start_B \<lparr>toLocaleTimeString = ''09:00:00'', getMonth = 10, getFullYear = 2026\<rparr>))
     = Some (Destroyed, True, [''get_all_dashboard_data'']) \<and>
   map_option (\<lambda>w. (phase w, refreshInterval w, map (fst \<circ> snd) (calls w)))
     (run_B [Settle 0 (Inr (JObject []))
                 \<lparr>toLocaleTimeString = ''09:00:05'', getMonth = 10, getFullYear = 2026\<rparr>,
             Mount, Destroy, Tick]
        (start_B \<lparr>toLocaleTimeString = ''09:00:00'', getMonth = 10, getFullYear = 2026\<rparr>))
     = Some (Destroyed, True, [''get_all_dashboard_data'', ''get_all_dashboard_data''])"
  by (simp add: run_B_eval)

text \<open>
  C3. When a remote call fails, the code after the \<^verbatim>\<open>await\<close> ends normally (no
  exception leaves \<^verbatim>\<open>loadDashboardData\<close> or \<^verbatim>\<open>loadMonthlySummary\<close>, and none is
  ever recorded for a handler), and the state is left as it was but for the flags: a failed
  \<^verbatim>\<open>loadDashboardData\<close> clears \<open>loading\<close>, a failed \<^verbatim>\<open>loadMonthlySummary\<close> changes
  nothing, and \<^verbatim>\<open>refreshData\<close> clears \<open>refreshing\<close> when it ends. After a failed first
  load the state is the initial one with \<open>loading\<close> cleared. In every state the
  controller reaches, once no call is awaited both flags are clear.
\<close>

theorem remote_failure_handling:
  "loadDashboardData_B_then now (Inl e) s = (Inr (), s\<lparr>loading := False\<rparr>) \<and>
   loadMonthlySummary_then (Inl e) s = (Inr (), s) \<and>
   loadDashboardData_A_then now (Inl e) sa = (Inr (), sa\<lparr>loading := False\<rparr>) \<and>
   resume_B InitialLoad now (Inl e) w = w\<lparr>state := (state w)\<lparr>loading := False\<rparr>\<rparr> \<and>
   resume_B RefreshDashboard now (Inl e) w =
     (if activeTab (state w) = ''monthly''
      then loadMonthlySummary_B RefreshMonthly (w\<lparr>state := (state w)\<lparr>loading := False\<rparr>\<rparr>)
      else w\<lparr>state := (state w)\<lparr>loading := False, refreshing := False\<rparr>\<rparr>) \<and>
   resume_B RefreshMonthly now (Inl e) w = w\<lparr>state := (state w)\<lparr>refreshing := False\<rparr>\<rparr> \<and>
   resume_B MonthlySummary now (Inl e) w = w \<and>
   rejected (resume_B k now r w) = rejected w \<and>
   step_B (Settle 0 (Inl e) now) (start_B c0) =
     Some ((start_B c0)\<lparr>state := (setup_B c0)\<lparr>loading := False\<rparr>, pending := [],
                             settled := 1\<rparr>) \<and>
   (run_B es (start_B c0) = Some w' \<longrightarrow>
      rejected w' = [] \<and>
      (pending w' = [] \<longrightarrow> \<not> loading (state w') \<and> \<not> refreshing (state w')))"
proof -
  have sys: "rejected w' = [] \<and>
      (pending w' = [] \<longrightarrow> \<not> loading (state w') \<and> \<not> refreshing (state w'))"
    if "run_B es (start_B c0) = Some w'"
    using invariant_B_run [OF invariant_B_start that]
    by (auto simp: invariant_B_def refreshInFlight_def)
  have fns: "loadDashboardData_B_then now (Inl e) s = (Inr (), s\<lparr>loading := False\<rparr>)"
    "loadMonthlySummary_then (Inl e) s = (Inr (), s)" for s :: stateB
    by (simp_all add: loadDashboardData_B_then_eq loadMonthlySummary_then_eq)
  have fa: "loadDashboardData_A_then now (Inl e) sa = (Inr (), sa\<lparr>loading := False\<rparr>)"
    by (simp add: loadDashboardData_A_then_eq)
  have res: "resume_B InitialLoad now (Inl e) w = w\<lparr>state := (state w)\<lparr>loading := False\<rparr>\<rparr>"
    "resume_B RefreshDashboard now (Inl e) w =
     (if activeTab (state w) = ''monthly''
      then loadMonthlySummary_B RefreshMonthly (w\<lparr>state := (state w)\<lparr>loading := False\<rparr>\<rparr>)
      else w\<lparr>state := (state w)\<lparr>loading := False, refreshing := False\<rparr>\<rparr>)"
    "resume_B RefreshMonthly now (Inl e) w = w\<lparr>state := (state w)\<lparr>refreshing := False\<rparr>\<rparr>"
    "resume_B MonthlySummary now (Inl e) w = w" for w
    by (simp_all add: resume_B_eqs fns Let_def)
  have first: "step_B (Settle 0 (Inl e) now) (start_B c0) =
     Some ((start_B c0)\<lparr>state := (setup_B c0)\<lparr>loading := False\<rparr>, pending := [],
                             settled := 1\<rparr>)"
    by (simp add: start_B_def loadDashboardData_B_def ormCall_def res)
  from sys fns fa res first show ?thesis
    by (simp add: resume_B_fields)
qed

theorem remote_failure_handling_witness:
  "\<exists>w. run_B [Settle 0 (Inl (RpcError ''offline''))
                 \<lparr>toLocaleTimeString = ''09:00:05'', getMonth = 10, getFullYear = 2026\<rparr>]
         (start_B \<lparr>toLocaleTimeString = ''09:00:00'', getMonth = 10, getFullYear = 2026\<rparr>) = Some w \<and>
       pending w = [] \<and> rejected w = [] \<and> \<not> loading (state w) \<and> \<not> refreshing (state w)"
proof -
  obtain w where run:
      "run_B [Settle 0 (Inl (RpcError ''offline''))
                 \<lparr>toLocaleTimeString = ''09:00:05'', getMonth = 10, getFullYear = 2026\<rparr>]
         (start_B \<lparr>toLocaleTimeString = ''09:00:00'', getMonth = 10, getFullYear = 2026\<rparr>) = Some w"
    and w: "pending w = []"
    by (simp add: run_B_eval)
  from remote_failure_handling [where w' = w] run w
  have "rejected w = [] \<and> \<not> loading (state w) \<and> \<not> refreshing (state w)" by blast
  with run w show ?thesis by blast
qed

text \<open>
  C5. In variant B, \<^verbatim>\<open>refreshData\<close> issues the full-dashboard call, and when that call
  is settled it issues the monthly-summary call exactly when \<open>activeTab\<close> is
  \<^verbatim>\<open>'monthly'\<close> (then waits for it), and nothing after that. In variant A,
  \<^verbatim>\<open>refreshData\<close> issues the full-dashboard call only, with no test of the tab: when the
  call succeeds, \<open>monthlySummary\<close> becomes the \<^verbatim>\<open>monthly_summary\<close> of the response
  whatever the tab is (and is left as it was when the call fails or the response is
  \<^verbatim>\<open>null\<close>).
\<close>

theorem refreshData_monthly_guard:
  "calls (refreshData_B wb) =
     calls wb @ [(''attendance.dashboard'', ''get_all_dashboard_data'',
                  [toJson (selectedDepartment (state wb))])] \<and>
   pending (refreshData_B wb) = pending wb @ [RefreshDashboard] \<and>
   calls (resume_B RefreshDashboard now r wb) =
     calls wb @
       (if activeTab (state wb) = ''monthly''
        then [(''attendance.dashboard'', ''get_monthly_work_summary'',
               [toJson (selectedDepartment (state wb)), toJson (selectedMonth (state wb)),
                toJson (selectedYear (state wb))])]
        else []) \<and>
   pending (resume_B RefreshDashboard now r wb) =
     pending wb @ (if activeTab (state wb) = ''monthly'' then [RefreshMonthly] else []) \<and>
   calls (resume_B RefreshMonthly now r wb) = calls wb \<and>
   pending (resume_B RefreshMonthly now r wb) = pending wb \<and>
   calls (refreshData_A wa) =
     calls wa @ [(''attendance.dashboard'', ''get_all_dashboard_data'',
                  [toJson (selectedDepartment (state wa)), toJson (selectedJob (state wa))])] \<and>
   pending (refreshData_A wa) = pending wa @ [RefreshDashboard_A] \<and>
   calls (resume_A RefreshDashboard_A now r wa) = calls wa \<and>
   pending (resume_A RefreshDashboard_A now r wa) = pending wa \<and>
   monthlySummary (state (resume_A RefreshDashboard_A now (Inr data) wa)) =
     (if isNullish data then monthlySummary (state wa) else propValue data ''monthly_summary'') \<and>
   monthlySummary (state (resume_A RefreshDashboard_A now (Inl e) wa)) = monthlySummary (state wa)"
  by (simp add: refreshData_B_def loadDashboardData_B_def ormCall_def resume_B_eqs Let_def
      loadDashboardData_B_then_eq loadMonthlySummary_then_eq loadMonthlySummary_B_def
      refreshData_A_def loadDashboardData_A_def awaited_def loadDashboardData_A_then_eq
      split: sum.splits)

text \<open>
  C6. In every state the controller of variant B reaches: \<open>loading\<close> is set only while
  no call has been settled, and once it is clear it stays clear whatever happens next;
  \<open>refreshing\<close> is set only while a \<^verbatim>\<open>refreshData\<close> is in flight, never while the first
  load is awaited; and the step that ends a \<^verbatim>\<open>refreshData\<close> (its last awaited call is
  settled, with a result or a failure) leaves \<open>refreshing\<close> clear.
\<close>

theorem loading_refreshing_invariant:
  assumes "run_B es (start_B c0) = Some w"
  shows "(loading (state w) \<longrightarrow> settled w = 0) \<and>
         (\<forall>es' w'. run_B es' w = Some w' \<and> \<not> loading (state w) \<longrightarrow> \<not> loading (state w')) \<and>
         (refreshing (state w) \<longrightarrow> refreshInFlight w) \<and>
         (InitialLoad \<in> set (pending w) \<longrightarrow> \<not> refreshing (state w)) \<and>
         (\<forall>i r now w'.
            step_B (Settle i r now) w = Some w' \<and>
            (pending w ! i = RefreshMonthly \<or>
             pending w ! i = RefreshDashboard \<and> activeTab (state w) \<noteq> ''monthly'') \<longrightarrow>
            \<not> refreshing (state w'))"
proof -
  have inv: "invariant_B w"
    using invariant_B_run [OF invariant_B_start assms] .
  have a: "loading (state w) \<longrightarrow> settled w = 0"
    and c: "refreshing (state w) \<longrightarrow> refreshInFlight w"
    and d: "InitialLoad \<in> set (pending w) \<longrightarrow> \<not> refreshing (state w)"
    using inv by (simp_all add: invariant_B_def)
  have b: "\<forall>es' w'. run_B es' w = Some w' \<and> \<not> loading (state w) \<longrightarrow> \<not> loading (state w')"
    using loading_stays_false_run by blast
  have e: "\<forall>i r now w'.
            step_B (Settle i r now) w = Some w' \<and>
            (pending w ! i = RefreshMonthly \<or>
             pending w ! i = RefreshDashboard \<and> activeTab (state w) \<noteq> ''monthly'') \<longrightarrow>
            \<not> refreshing (state w')"
    by (auto simp: resume_B_refreshing split: if_splits)
  from a b c d e show ?thesis by blast
qed

theorem loading_refreshing_invariant_witness:
  "(\<exists>w. run_B [] (start_B \<lparr>toLocaleTimeString = ''09:00:00'', getMonth = 10, getFullYear = 2026\<rparr>)
          = Some w \<and>
        loading (state w) \<and> settled w = 0 \<and> InitialLoad \<in> set (pending w) \<and>
        \<not> refreshing (state w)) \<and>
   (\<exists>w w'. run_B [Settle 0 (Inl (RpcError ''offline''))
                    \<lparr>toLocaleTimeString = ''09:00:05'', getMonth = 10, getFullYear = 2026\<rparr>,
                  Mount, Tick]
            (start_B \<lparr>toLocaleTimeString = ''09:00:00'', getMonth = 10, getFullYear = 2026\<rparr>)
          = Some w \<and>
        \<not> loading (state w) \<and> settled w = 1 \<and> refreshing (state w) \<and> refreshInFlight w \<and>
        InitialLoad \<notin> set (pending w) \<and>
        pending w ! 0 = RefreshDashboard \<and> activeTab (state w) \<noteq> ''monthly'' \<and>
        step_B (Settle 0 (Inr (JObject []))
                 \<lparr>toLocaleTimeString = ''09:01:06'', getMonth = 10, getFullYear = 2026\<rparr>) w
          = Some w' \<and>
        run_B [Settle 0 (Inr (JObject []))
                 \<lparr>toLocaleTimeString = ''09:01:06'', getMonth = 10, getFullYear = 2026\<rparr>] w
          = Some w' \<and>
        \<not> refreshing (state w') \<and> \<not> loading (state w'))"
proof -
  obtain w0 where run0:
      "run_B [] (start_B \<lparr>toLocaleTimeString = ''09:00:00'', getMonth = 10, getFullYear = 2026\<rparr>)
         = Some w0"
    and w0: "loading (state w0)" "InitialLoad \<in> set (pending w0)"
    by (simp add: run_B_eval)
  from loading_refreshing_invariant [OF run0] w0
  have c0: "settled w0 = 0" "\<not> refreshing (state w0)" by auto
  obtain w where run:
      "run_B [Settle 0 (Inl (RpcError ''offline''))
                 \<lparr>toLocaleTimeString = ''09:00:05'', getMonth = 10, getFullYear = 2026\<rparr>,
               Mount, Tick]
         (start_B \<lparr>toLocaleTimeString = ''09:00:00'', getMonth = 10, getFullYear = 2026\<rparr>) = Some w"
    and w: "refreshing (state w)" "settled w = 1" "\<not> loading (state w)"
      "pending w ! 0 = RefreshDashboard" "activeTab (state w) \<noteq> ''monthly''"
      "pending w \<noteq> []"
    by (simp add: run_B_eval)
  obtain w' where st:
      "step_B (Settle 0 (Inr (JObject []))
                 \<lparr>toLocaleTimeString = ''09:01:06'', getMonth = 10, getFullYear = 2026\<rparr>) w
         = Some w'"
    using w(6) by simp
  then have rn:
      "run_B [Settle 0 (Inr (JObject []))
                 \<lparr>toLocaleTimeString = ''09:01:06'', getMonth = 10, getFullYear = 2026\<rparr>] w
         = Some w'"
    by simp
  note at_w = loading_refreshing_invariant [OF run]
  from at_w w have c: "refreshInFlight w" "InitialLoad \<notin> set (pending w)" by auto
  from at_w st w have d: "\<not> refreshing (state w')" by blast
  from at_w rn w have e: "\<not> loading (state w')" by blast
  from run0 w0 c0 run w c st rn d e show ?thesis by blast
qed

text \<open>
  C7. \<^verbatim>\<open>onMonthChange\<close> and \<^verbatim>\<open>onYearChange\<close>, in both variants, change only
  \<open>selectedMonth\<close> (\<open>selectedYear\<close>) in the state, issue one call, the
  \<^verbatim>\<open>get_monthly_work_summary\<close> with the filters now selected, and wait for it; nothing
  else of the controller changes. When that call is settled only \<open>monthlySummary\<close> is
  written (with the response; not at all after a failure) and no call is issued.
\<close>

theorem month_year_change_frame:
  "onMonthChange_B v wb =
     wb\<lparr>state := (state wb)\<lparr>selectedMonth := Some (parseInt v)\<rparr>,
        calls := calls wb @ [(''attendance.dashboard'', ''get_monthly_work_summary'',
          [toJson (selectedDepartment (state wb)), JNumber (parseInt v),
           toJson (selectedYear (state wb))])],
        pending := pending wb @ [MonthlySummary]\<rparr> \<and>
   onYearChange_B v wb =
     wb\<lparr>state := (state wb)\<lparr>selectedYear := Some (parseInt v)\<rparr>,
        calls := calls wb @ [(''attendance.dashboard'', ''get_monthly_work_summary'',
          [toJson (selectedDepartment (state wb)), toJson (selectedMonth (state wb)),
           JNumber (parseInt v)])],
        pending := pending wb @ [MonthlySummary]\<rparr> \<and>
   resume_B MonthlySummary now r wb =
     wb\<lparr>state := (case r of Inl e \<Rightarrow> state wb | Inr data \<Rightarrow> (state wb)\<lparr>monthlySummary := data\<rparr>)\<rparr> \<and>
   onMonthChange_A v wa =
     wa\<lparr>state := (state wa)\<lparr>selectedMonth := Some (parseInt v)\<rparr>,
        calls := calls wa @ [(''attendance.dashboard'', ''get_monthly_work_summary'',
          [toJson (selectedDepartment (state wa)), toJson (selectedJob (state wa)),
           JNumber (parseInt v), toJson (selectedYear (state wa))])],
        pending := pending wa @ [MonthlySummary_A]\<rparr> \<and>
   onYearChange_A v wa =
     wa\<lparr>state := (state wa)\<lparr>selectedYear := Some (parseInt v)\<rparr>,
        calls := calls wa @ [(''attendance.dashboard'', ''get_monthly_work_summary'',
          [toJson (selectedDepartment (state wa)), toJson (selectedJob (state wa)),
           toJson (selectedMonth (state wa)), JNumber (parseInt v)])],
        pending := pending wa @ [MonthlySummary_A]\<rparr> \<and>
   resume_A MonthlySummary_A now r wa =
     wa\<lparr>state := (case r of Inl e \<Rightarrow> state wa | Inr data \<Rightarrow> (state wa)\<lparr>monthlySummary := data\<rparr>)\<rparr>"
  by (simp add: onMonthChange_B_def onYearChange_B_def loadMonthlySummary_B_def ormCall_def
      onMonthChange_A_def onYearChange_A_def loadMonthlySummary_A_def resume_B.simps
      awaited_def loadMonthlySummary_then_eq split: sum.splits)

end
